theory Spec2Isabelle
  imports Complex_Main
begin

section \<open>Values, exceptions and the HTTP collaborator\<close>

text \<open>
  The values that flow through \<^verbatim>\<open>gusto.py\<close> are what \<^verbatim>\<open>response.json()\<close> hands
  back: Python's \<^verbatim>\<open>None\<close>, booleans, integers, floats, strings, lists and dicts with
  string keys. A dict is written as the list of its items in insertion order and read
  with \<open>map_of\<close>. A float is never inspected by this code, only passed on; it is carried
  as the number it denotes.
\<close>

datatype json =
    JNull
  | JBool bool
  | JInt int
  | JFloat real
  | JStr string
  | JArr "json list"
  | JObj "(string \<times> json) list"

text \<open>
  The exceptions that can leave the two classes. \<open>Exception\<close> is the only one the module
  raises itself (\<^verbatim>\<open>raise Exception(a, b)\<close>, line 70); the others come from Python's
  subscripting and attribute access and from the \<^verbatim>\<open>requests\<close> library
  (\<open>RequestException\<close>: the request could not be carried out; \<open>JSONDecodeError\<close>: the
  body of the response is not JSON).
\<close>

datatype error =
    Exception json json
  | KeyError json
  | IndexError
  | TypeError
  | AttributeError
  | RequestException
  | JSONDecodeError

datatype http_method = GET | POST

record request =
  verb :: http_method
  url :: string
  headers :: "(string \<times> string) list"
  json_body :: "json option"

text \<open>
  A response carries its status code and what \<^verbatim>\<open>response.json()\<close> makes of its body
  (\<open>None\<close>: the body does not parse). The module never reads the status code.
\<close>

datatype response = Response (status_code: nat) (decoded: "json option")

text \<open>
  The remote side is any deterministic function of the requests made so far (oldest
  first) and of the current request; \<open>None\<close> means that no response arrives and
  \<^verbatim>\<open>requests.get\<close>/\<^verbatim>\<open>requests.post\<close> raises. Every operation threads the list of
  requests sent so far.
\<close>

type_synonym server = "request list \<Rightarrow> request \<Rightarrow> response option"

definition send :: "server \<Rightarrow> request \<Rightarrow> request list \<Rightarrow> (error + response) \<times> request list" where
  "send srv rq sent =
     (case srv sent rq of
        None \<Rightarrow> (Inl RequestException, sent @ [rq])
      | Some r \<Rightarrow> (Inr r, sent @ [rq]))"

definition response_json :: "response \<Rightarrow> error + json" where
  "response_json r = (case decoded r of None \<Rightarrow> Inl JSONDecodeError | Some j \<Rightarrow> Inr j)"

subsection \<open>Python's operations on these values\<close>

text \<open>\<^verbatim>\<open>v.keys()\<close>: only a dict has the attribute.\<close>

fun keys :: "json \<Rightarrow> error + string list" where
  "keys (JObj kvs) = Inr (map fst kvs)"
| "keys _ = Inl AttributeError"

text \<open>\<^verbatim>\<open>v["k"]\<close> for a string key.\<close>

fun getitem :: "json \<Rightarrow> string \<Rightarrow> error + json" where
  "getitem (JObj kvs) k = (case map_of kvs k of None \<Rightarrow> Inl (KeyError (JStr k)) | Some v \<Rightarrow> Inr v)"
| "getitem _ k = Inl TypeError"

text \<open>
  \<^verbatim>\<open>v[0]\<close>: the first element of a list, the first character of a string, a failed
  lookup of the key \<open>0\<close> in a dict (whose keys are all strings).
\<close>

fun getitem0 :: "json \<Rightarrow> error + json" where
  "getitem0 (JArr []) = Inl IndexError"
| "getitem0 (JArr (x # xs)) = Inr x"
| "getitem0 (JStr []) = Inl IndexError"
| "getitem0 (JStr (c # cs)) = Inr (JStr [c])"
| "getitem0 (JObj kvs) = Inl (KeyError (JInt 0))"
| "getitem0 _ = Inl TypeError"

text \<open>Sequencing of two steps of which the first may raise.\<close>

definition and_then :: "error + 'a \<Rightarrow> ('a \<Rightarrow> error + 'b) \<Rightarrow> error + 'b" where
  "and_then r f = (case r of Inl e \<Rightarrow> Inl e | Inr v \<Rightarrow> f v)"

text \<open>
  The text an f-string puts for \<^verbatim>\<open>{v}\<close>. It is the string itself, the decimal digits
  of an integer, \<^verbatim>\<open>None\<close>, \<^verbatim>\<open>True\<close>, \<^verbatim>\<open>False\<close>; for floats, lists and dicts it is the
  interpreter's \<^verbatim>\<open>repr\<close>, taken as the parameter \<open>repr\<close>.
\<close>

fun digits :: "nat \<Rightarrow> string" where
  "digits n =
     (if n < 10 then [''0123456789'' ! n]
      else digits (n div 10) @ [''0123456789'' ! (n mod 10)])"

declare digits.simps [simp del]

definition str_of_int :: "int \<Rightarrow> string" where
  "str_of_int i = (if i < 0 then CHR ''-'' # digits (nat (- i)) else digits (nat i))"

fun format :: "(json \<Rightarrow> string) \<Rightarrow> json \<Rightarrow> string" where
  "format repr (JStr s) = s"
| "format repr (JInt i) = str_of_int i"
| "format repr JNull = ''None''"
| "format repr (JBool b) = (if b then ''True'' else ''False'')"
| "format repr v = repr v"

section \<open>Module constants\<close>

definition BASE_URL :: string where
  "BASE_URL = ''https://api.gusto-demo.com''"

definition CALLBACK_URL :: string where
  "CALLBACK_URL = ''http://localhost:5000/callback''"

text \<open>\<^verbatim>\<open>CLIENT_ID\<close> and \<^verbatim>\<open>SECRET\<close> are read from the process environment at import.\<close>

record config =
  CLIENT_ID :: string
  SECRET :: string

section \<open>GustoAuth\<close>

record GustoAuth =
  refresh_token :: json

text \<open>\<^verbatim>\<open>__init__(self, refresh_token=None)\<close>: the argument may be left out.\<close>

definition GustoAuth_init :: "json option \<Rightarrow> GustoAuth" where
  "GustoAuth_init arg = \<lparr>refresh_token = (case arg of None \<Rightarrow> JNull | Some t \<Rightarrow> t)\<rparr>"

definition put :: "GustoAuth \<Rightarrow> json \<Rightarrow> GustoAuth" where
  "put self new_token = self\<lparr>refresh_token := new_token\<rparr>"

definition get :: "GustoAuth \<Rightarrow> json" where
  "get self = refresh_token self"

text \<open>The request of lines 51 to 67: the dict \<^verbatim>\<open>data\<close> posted as JSON to the token endpoint.\<close>

definition token_data :: "config \<Rightarrow> json \<Rightarrow> bool \<Rightarrow> (string \<times> json) list" where
  "token_data cfg token refresh =
     [(''client_id'', JStr (CLIENT_ID cfg)),
      (''client_secret'', JStr (SECRET cfg)),
      (''redirect_uri'', JStr CALLBACK_URL)] @
     (if refresh
      then [(''grant_type'', JStr ''refresh_token''), (''refresh_token'', token)]
      else [(''grant_type'', JStr ''authorization_code''), (''code'', token)])"

definition token_request :: "config \<Rightarrow> json \<Rightarrow> bool \<Rightarrow> request" where
  "token_request cfg token refresh =
     \<lparr>verb = POST,
      url = BASE_URL @ ''/oauth/token'',
      headers = [(''Content-Type'', ''application/json'')],
      json_body = Some (JObj (token_data cfg token refresh))\<rparr>"

text \<open>
  \<^verbatim>\<open>oauth(self, token, refresh=False)\<close>. The result is what the call returns or raises,
  the object afterwards, and the requests sent so far. Line 74 stores the new refresh
  token before line 76 reads the access token.
\<close>

definition oauth ::
  "config \<Rightarrow> server \<Rightarrow> GustoAuth \<Rightarrow> json \<Rightarrow> bool \<Rightarrow> request list
     \<Rightarrow> (error + json) \<times> GustoAuth \<times> request list" where
  "oauth cfg srv self token refresh sent =
     (case send srv (token_request cfg token refresh) sent of
        (Inl e, sent') \<Rightarrow> (Inl e, self, sent')
      | (Inr resp, sent') \<Rightarrow>
          (case response_json resp of
             Inl e \<Rightarrow> (Inl e, self, sent')
           | Inr body \<Rightarrow>
               (case keys body of
                  Inl e \<Rightarrow> (Inl e, self, sent')
                | Inr ks \<Rightarrow>
                    if ''error'' \<in> set ks then
                      (case getitem body ''error'' of
                         Inl e \<Rightarrow> (Inl e, self, sent')
                       | Inr err \<Rightarrow>
                           (case getitem body ''error_description'' of
                              Inl e \<Rightarrow> (Inl e, self, sent')
                            | Inr descr \<Rightarrow> (Inl (Exception err descr), self, sent')))
                    else
                      (case getitem body ''refresh_token'' of
                         Inl e \<Rightarrow> (Inl e, self, sent')
                       | Inr new_refresh \<Rightarrow>
                           (let self' = put self new_refresh in
                            case getitem body ''access_token'' of
                              Inl e \<Rightarrow> (Inl e, self', sent')
                            | Inr token' \<Rightarrow> (Inr token', self', sent'))))))"

definition authorize ::
  "config \<Rightarrow> server \<Rightarrow> GustoAuth \<Rightarrow> json \<Rightarrow> request list
     \<Rightarrow> (error + json) \<times> GustoAuth \<times> request list" where
  "authorize cfg srv self token sent = oauth cfg srv self token False sent"

definition GustoAuth_access_token ::
  "config \<Rightarrow> server \<Rightarrow> GustoAuth \<Rightarrow> request list
     \<Rightarrow> (error + json) \<times> GustoAuth \<times> request list" where
  "GustoAuth_access_token cfg srv self sent = oauth cfg srv self (get self) True sent"

text \<open>
  \<^verbatim>\<open>__str__\<close> returns the attribute as it is; the built-in \<^verbatim>\<open>str(obj)\<close> raises
  \<^verbatim>\<open>TypeError\<close> when \<^verbatim>\<open>__str__\<close> returns anything but a string.
\<close>

definition GustoAuth_str :: "GustoAuth \<Rightarrow> json" where
  "GustoAuth_str self = refresh_token self"

definition str_GustoAuth :: "GustoAuth \<Rightarrow> error + string" where
  "str_GustoAuth self = (case GustoAuth_str self of JStr s \<Rightarrow> Inr s | _ \<Rightarrow> Inl TypeError)"

section \<open>Gusto\<close>

record Gusto =
  access_token :: json

definition Gusto_init :: "json \<Rightarrow> Gusto" where
  "Gusto_init tok = \<lparr>access_token = tok\<rparr>"

definition bearer_headers :: "(json \<Rightarrow> string) \<Rightarrow> Gusto \<Rightarrow> (string \<times> string) list" where
  "bearer_headers repr self =
     [(''Accept'', ''application/json''),
      (''Authorization'', ''Bearer '' @ format repr (access_token self))]"

definition me_request :: "(json \<Rightarrow> string) \<Rightarrow> Gusto \<Rightarrow> request" where
  "me_request repr self =
     \<lparr>verb = GET, url = BASE_URL @ ''/v1/me'', headers = bearer_headers repr self,
      json_body = None\<rparr>"

definition me ::
  "(json \<Rightarrow> string) \<Rightarrow> server \<Rightarrow> Gusto \<Rightarrow> request list
     \<Rightarrow> (error + json) \<times> Gusto \<times> request list" where
  "me repr srv self sent =
     (case send srv (me_request repr self) sent of
        (Inl e, sent') \<Rightarrow> (Inl e, self, sent')
      | (Inr resp, sent') \<Rightarrow> (response_json resp, self, sent'))"

text \<open>
  Line 124: \<^verbatim>\<open>self.me()["roles"]["payroll_admin"]["companies"][0]["id"]\<close>. The five
  subscripts, from left to right, are \<open>subscripts\<close>; the first that raises ends the call.
\<close>

definition subscripts :: "json \<Rightarrow> error + json" where
  "subscripts profile =
     and_then (getitem profile ''roles'') (\<lambda>roles.
     and_then (getitem roles ''payroll_admin'') (\<lambda>admin.
     and_then (getitem admin ''companies'') (\<lambda>companies.
     and_then (getitem0 companies) (\<lambda>company.
     getitem company ''id''))))"

definition company_id ::
  "(json \<Rightarrow> string) \<Rightarrow> server \<Rightarrow> Gusto \<Rightarrow> request list
     \<Rightarrow> (error + json) \<times> Gusto \<times> request list" where
  "company_id repr srv self sent =
     (case me repr srv self sent of
        (r, self', sent') \<Rightarrow> (and_then r subscripts, self', sent'))"

definition resource_request :: "(json \<Rightarrow> string) \<Rightarrow> Gusto \<Rightarrow> json \<Rightarrow> string \<Rightarrow> request" where
  "resource_request repr self cid suffix =
     \<lparr>verb = GET,
      url = BASE_URL @ ''/v1/companies/'' @ format repr cid @ suffix,
      headers = bearer_headers repr self,
      json_body = None\<rparr>"

text \<open>
  \<^verbatim>\<open>get_contractors\<close> and \<^verbatim>\<open>get_employees\<close>. The URL is the first argument of
  \<^verbatim>\<open>requests.get\<close>, so \<^verbatim>\<open>company_id()\<close> runs, and may raise, before anything is sent
  to the resource endpoint.
\<close>

definition get_contractors ::
  "(json \<Rightarrow> string) \<Rightarrow> server \<Rightarrow> Gusto \<Rightarrow> request list
     \<Rightarrow> (error + json) \<times> Gusto \<times> request list" where
  "get_contractors repr srv self sent =
     (case company_id repr srv self sent of
        (Inl e, self', sent') \<Rightarrow> (Inl e, self', sent')
      | (Inr cid, self', sent') \<Rightarrow>
          (case send srv (resource_request repr self' cid ''/contractors'') sent' of
             (Inl e, sent'') \<Rightarrow> (Inl e, self', sent'')
           | (Inr resp, sent'') \<Rightarrow> (response_json resp, self', sent'')))"

definition get_employees ::
  "(json \<Rightarrow> string) \<Rightarrow> server \<Rightarrow> Gusto \<Rightarrow> request list
     \<Rightarrow> (error + json) \<times> Gusto \<times> request list" where
  "get_employees repr srv self sent =
     (case company_id repr srv self sent of
        (Inl e, self', sent') \<Rightarrow> (Inl e, self', sent')
      | (Inr cid, self', sent') \<Rightarrow>
          (case send srv (resource_request repr self' cid ''/employees'') sent' of
             (Inl e, sent'') \<Rightarrow> (Inl e, self', sent'')
           | (Inr resp, sent'') \<Rightarrow>
               (case response_json resp of
                  Inl e \<Rightarrow> (Inl e, self', sent'')
                | Inr employees \<Rightarrow> (Inr employees, self', sent''))))"

section \<open>The profile path and test collaborators\<close>

text \<open>
  The path \<^verbatim>\<open>roles.payroll_admin.companies[0].id\<close> read as a path into a JSON
  document: a member of an object, the first element of an array. This is the reading
  of the specification; \<open>company_id\<close> above is the code.
\<close>

fun member :: "json \<Rightarrow> string \<Rightarrow> json option" where
  "member (JObj kvs) k = map_of kvs k"
| "member _ k = None"

fun element0 :: "json \<Rightarrow> json option" where
  "element0 (JArr (x # xs)) = Some x"
| "element0 _ = None"

definition profile_path :: "json \<Rightarrow> json option" where
  "profile_path profile =
     Option.bind (member profile ''roles'') (\<lambda>roles.
     Option.bind (member roles ''payroll_admin'') (\<lambda>admin.
     Option.bind (member admin ''companies'') (\<lambda>companies.
     Option.bind (element0 companies) (\<lambda>company.
     member company ''id''))))"

text \<open>
  Mocked remote sides: one that gives the same response to every request, and one that
  answers the n-th request with the n-th entry of a script and lets every later
  request fail.
\<close>

definition always :: "response \<Rightarrow> server" where
  "always resp = (\<lambda>sent rq. Some resp)"

definition scripted :: "response option list \<Rightarrow> server" where
  "scripted rs = (\<lambda>sent rq. if length sent < length rs then rs ! length sent else None)"

text \<open>A stand-in for the interpreter's \<^verbatim>\<open>repr\<close> where no float, list or dict is formatted.\<close>

definition stub_repr :: "json \<Rightarrow> string" where
  "stub_repr v = ''?''"

definition demo_config :: config where
  "demo_config = \<lparr>CLIENT_ID = ''client'', SECRET = ''secret''\<rparr>"

definition demo_profile :: json where
  "demo_profile =
     JObj [(''email'', JStr ''admin@example.com''),
           (''roles'', JObj [(''payroll_admin'',
              JObj [(''companies'', JArr [JObj [(''id'', JInt 7057), (''name'', JStr ''Acme'')]])])])]"

section \<open>Properties of GustoAuth\<close>

subsection \<open>What \<open>oauth\<close> does with a response whose body is an object\<close>

lemma error_key_iff: "(''error'' \<in> fst ` set kvs) = (map_of kvs ''error'' \<noteq> None)"
  by (simp add: map_of_eq_None_iff)

lemma oauth_on_object:
  assumes "srv sent (token_request cfg token refresh) = Some resp"
    and "decoded resp = Some (JObj kvs)"
  shows "oauth cfg srv self token refresh sent =
     (case map_of kvs ''error'' of
        Some err \<Rightarrow>
          (case map_of kvs ''error_description'' of
             Some descr \<Rightarrow>
               (Inl (Exception err descr), self, sent @ [token_request cfg token refresh])
           | None \<Rightarrow>
               (Inl (KeyError (JStr ''error_description'')), self,
                sent @ [token_request cfg token refresh]))
      | None \<Rightarrow>
          (case map_of kvs ''refresh_token'' of
             None \<Rightarrow>
               (Inl (KeyError (JStr ''refresh_token'')), self,
                sent @ [token_request cfg token refresh])
           | Some rt \<Rightarrow>
               (case map_of kvs ''access_token'' of
                  None \<Rightarrow>
                    (Inl (KeyError (JStr ''access_token'')), put self rt,
                     sent @ [token_request cfg token refresh])
                | Some tok \<Rightarrow>
                    (Inr tok, put self rt, sent @ [token_request cfg token refresh]))))"
  using assms
  by (simp add: oauth_def send_def response_json_def error_key_iff Let_def split: option.splits)

text \<open>
  A call that returns has received an object without \<open>error\<close> that holds both tokens, so
  the hypotheses of the theorems below cover every successful exchange.
\<close>

lemma oauth_returns:
  assumes "fst (oauth cfg srv self token refresh sent) = Inr tok"
  shows "\<exists>resp kvs rt. srv sent (token_request cfg token refresh) = Some resp
           \<and> decoded resp = Some (JObj kvs) \<and> map_of kvs ''error'' = None
           \<and> map_of kvs ''refresh_token'' = Some rt \<and> map_of kvs ''access_token'' = Some tok"
proof -
  obtain resp where r: "srv sent (token_request cfg token refresh) = Some resp"
    using assms
    by (cases "srv sent (token_request cfg token refresh)") (auto simp: oauth_def send_def)
  obtain body where b: "decoded resp = Some body"
    using assms r by (cases "decoded resp") (auto simp: oauth_def send_def response_json_def)
  obtain kvs where k: "body = JObj kvs"
    using assms r b by (cases body) (auto simp: oauth_def send_def response_json_def)
  show ?thesis
    using assms r b k
    by (auto simp: oauth_on_object [of srv sent cfg token refresh resp kvs] split: option.splits)
qed

lemma oauth_sent: "snd (snd (oauth cfg srv self token refresh sent)) = sent @ [token_request cfg token refresh]"
  by (simp add: oauth_def send_def Let_def split: option.splits sum.splits)

lemma get_put: "get (put self t) = t"
  by (simp add: get_def put_def)

subsection \<open>Error responses\<close>

text \<open>
  C1, as the code has it. When the token endpoint answers with a JSON object that has
  an \<open>error\<close> field, \<open>oauth\<close> fails, in either grant mode, and \<open>get\<close> returns afterwards
  what it returned before. When the object also has an \<open>error_description\<close> field, the
  failure is the exception of line 70 carrying the values of the two fields.
\<close>

theorem oauth_error_response:
  assumes "srv sent (token_request cfg token refresh) = Some resp"
    and "decoded resp = Some (JObj kvs)"
    and "map_of kvs ''error'' = Some err"
  shows "(\<exists>e. fst (oauth cfg srv self token refresh sent) = Inl e)
       \<and> get (fst (snd (oauth cfg srv self token refresh sent))) = get self
       \<and> (\<forall>descr. map_of kvs ''error_description'' = Some descr \<longrightarrow>
            fst (oauth cfg srv self token refresh sent) = Inl (Exception err descr))"
  using assms
  by (simp add: oauth_on_object [of srv sent cfg token refresh resp kvs] split: option.splits)

text \<open>An expired refresh token: the held token stays \<open>r1\<close>.\<close>

theorem oauth_error_response_witness:
  "fst (oauth demo_config
          (always (Response 400 (Some (JObj
             [(''error'', JStr ''invalid_grant''), (''error_description'', JStr ''expired'')]))))
          (GustoAuth_init (Some (JStr ''r1''))) (JStr ''r1'') True [])
     = Inl (Exception (JStr ''invalid_grant'') (JStr ''expired''))
   \<and> get (fst (snd (oauth demo_config
          (always (Response 400 (Some (JObj
             [(''error'', JStr ''invalid_grant''), (''error_description'', JStr ''expired'')]))))
          (GustoAuth_init (Some (JStr ''r1''))) (JStr ''r1'') True []))) = JStr ''r1''"
  using oauth_error_response [of
      "always (Response 400 (Some (JObj
             [(''error'', JStr ''invalid_grant''), (''error_description'', JStr ''expired'')])))"
      "[]" demo_config "JStr ''r1''" True
      "Response 400 (Some (JObj
             [(''error'', JStr ''invalid_grant''), (''error_description'', JStr ''expired'')]))"
      "[(''error'', JStr ''invalid_grant''), (''error_description'', JStr ''expired'')]"
      "JStr ''invalid_grant''" "GustoAuth_init (Some (JStr ''r1''))"]
  by (simp add: get_def GustoAuth_init_def always_def)

text \<open>
  C1 as stated fails on a body that has \<open>error\<close> and no \<open>error_description\<close>: line 71
  raises \<^verbatim>\<open>KeyError\<close>, and the provider's error code is not carried.
\<close>

theorem oauth_error_without_description:
  "oauth demo_config
      (always (Response 400 (Some (JObj [(''error'', JStr ''invalid_grant'')]))))
      (GustoAuth_init (Some (JStr ''r1''))) (JStr ''code'') False []
   = (Inl (KeyError (JStr ''error_description'')), GustoAuth_init (Some (JStr ''r1'')),
      [token_request demo_config (JStr ''code'') False])"
  by (simp add: oauth_def send_def response_json_def always_def)

subsection \<open>Successful exchanges\<close>




text \<open>
  C3, at a response that has \<open>refresh_token\<close> and no \<open>access_token\<close>: line 74 has already
  replaced the held token \<open>r1\<close> by \<open>r2\<close> when line 76 raises \<^verbatim>\<open>KeyError\<close>, so the failed
  call does change what \<open>get\<close> returns.
\<close>

theorem oauth_partial_update:
  "oauth demo_config (always (Response 200 (Some (JObj [(''refresh_token'', JStr ''r2'')]))))
      (GustoAuth_init (Some (JStr ''r1''))) (JStr ''r1'') True []
   = (Inl (KeyError (JStr ''access_token'')), GustoAuth_init (Some (JStr ''r2'')),
      [token_request demo_config (JStr ''r1'') True])
   \<and> get (GustoAuth_init (Some (JStr ''r1''))) = JStr ''r1''
   \<and> get (GustoAuth_init (Some (JStr ''r2''))) = JStr ''r2''"
  by (simp add: oauth_def send_def response_json_def always_def put_def get_def
        GustoAuth_init_def)

text \<open>
  C4. When the response to its request is an object without \<open>error\<close> that holds both
  tokens, \<open>authorize\<close> returns the value of the \<open>access_token\<close> field, and so does
  \<open>access_token()\<close>; the value of the \<open>refresh_token\<close> field is returned only where the
  two fields hold the same value.
\<close>

theorem wrappers_return_access_token:
  assumes "decoded resp = Some (JObj kvs)"
    and "map_of kvs ''error'' = None"
    and "map_of kvs ''refresh_token'' = Some rt"
    and "map_of kvs ''access_token'' = Some tok"
  shows "(srv sent (token_request cfg code False) = Some resp \<longrightarrow>
            fst (authorize cfg srv self code sent) = Inr tok
          \<and> (tok \<noteq> rt \<longrightarrow> fst (authorize cfg srv self code sent) \<noteq> Inr rt))
       \<and> (srv sent (token_request cfg (get self) True) = Some resp \<longrightarrow>
            fst (GustoAuth_access_token cfg srv self sent) = Inr tok
          \<and> (tok \<noteq> rt \<longrightarrow> fst (GustoAuth_access_token cfg srv self sent) \<noteq> Inr rt))"
  using assms
  by (simp add: authorize_def GustoAuth_access_token_def
        oauth_on_object [of srv sent cfg _ _ resp kvs])

theorem wrappers_return_access_token_witness:
  "fst (authorize demo_config
      (always (Response 200 (Some
         (JObj [(''access_token'', JStr ''a1''), (''refresh_token'', JStr ''r2'')]))))
      (GustoAuth_init None) (JStr ''code'') []) = Inr (JStr ''a1'')
   \<and> fst (authorize demo_config
      (always (Response 200 (Some
         (JObj [(''access_token'', JStr ''a1''), (''refresh_token'', JStr ''r2'')]))))
      (GustoAuth_init None) (JStr ''code'') []) \<noteq> Inr (JStr ''r2'')
   \<and> fst (GustoAuth_access_token demo_config
      (always (Response 200 (Some
         (JObj [(''access_token'', JStr ''a1''), (''refresh_token'', JStr ''r2'')]))))
      (GustoAuth_init None) []) = Inr (JStr ''a1'')
   \<and> fst (GustoAuth_access_token demo_config
      (always (Response 200 (Some
         (JObj [(''access_token'', JStr ''a1''), (''refresh_token'', JStr ''r2'')]))))
      (GustoAuth_init None) []) \<noteq> Inr (JStr ''r2'')"
  using wrappers_return_access_token [of
      "Response 200 (Some (JObj [(''access_token'', JStr ''a1''), (''refresh_token'', JStr ''r2'')]))"
      "[(''access_token'', JStr ''a1''), (''refresh_token'', JStr ''r2'')]"
      "JStr ''r2''" "JStr ''a1''"
      "always (Response 200 (Some
         (JObj [(''access_token'', JStr ''a1''), (''refresh_token'', JStr ''r2'')])))"
      "[]" demo_config "JStr ''code''" "GustoAuth_init None"]
  by (simp add: always_def)

subsection \<open>The two wrappers and the rotation of the refresh token\<close>

text \<open>
  C5. \<open>authorize\<close> is \<open>oauth\<close> in the authorization-code mode and \<open>access_token()\<close> is
  \<open>oauth\<close> in the refresh mode on the token that \<open>get\<close> returns. The one request that
  \<open>authorize\<close> sends is the POST to \<^verbatim>\<open>/oauth/token\<close> with the client identifier, the
  secret, the redirect URI, the grant type \<^verbatim>\<open>authorization_code\<close> and the code; the one
  that \<open>access_token()\<close> sends has the grant type \<^verbatim>\<open>refresh_token\<close> and the held token.
  When the request is answered with an access token \<open>a1\<close> and a refresh token \<open>r2\<close>, the
  call returns \<open>a1\<close> and \<open>get\<close> returns \<open>r2\<close> afterwards, and the request of the next
  \<open>access_token()\<close> call has \<open>r2\<close> as the \<open>refresh_token\<close> of its body.
\<close>

theorem wrappers_and_rotation:
  "authorize cfg srv self code sent = oauth cfg srv self code False sent
   \<and> GustoAuth_access_token cfg srv self sent = oauth cfg srv self (get self) True sent
   \<and> token_request cfg code False
        = \<lparr>verb = POST, url = ''https://api.gusto-demo.com/oauth/token'',
           headers = [(''Content-Type'', ''application/json'')],
           json_body = Some (JObj
             [(''client_id'', JStr (CLIENT_ID cfg)),
              (''client_secret'', JStr (SECRET cfg)),
              (''redirect_uri'', JStr ''http://localhost:5000/callback''),
              (''grant_type'', JStr ''authorization_code''),
              (''code'', code)])\<rparr>
   \<and> token_request cfg t True
        = \<lparr>verb = POST, url = ''https://api.gusto-demo.com/oauth/token'',
           headers = [(''Content-Type'', ''application/json'')],
           json_body = Some (JObj
             [(''client_id'', JStr (CLIENT_ID cfg)),
              (''client_secret'', JStr (SECRET cfg)),
              (''redirect_uri'', JStr ''http://localhost:5000/callback''),
              (''grant_type'', JStr ''refresh_token''),
              (''refresh_token'', t)])\<rparr>
   \<and> snd (snd (authorize cfg srv self code sent)) = sent @ [token_request cfg code False]
   \<and> snd (snd (GustoAuth_access_token cfg srv self sent))
        = sent @ [token_request cfg (get self) True]
   \<and> (decoded resp = Some (JObj kvs)
        \<and> map_of kvs ''error'' = None
        \<and> map_of kvs ''refresh_token'' = Some r2
        \<and> map_of kvs ''access_token'' = Some a1 \<longrightarrow>
          (srv sent (token_request cfg code False) = Some resp \<longrightarrow>
             authorize cfg srv self code sent
               = (Inr a1, put self r2, sent @ [token_request cfg code False]))
        \<and> (srv sent (token_request cfg (get self) True) = Some resp \<longrightarrow>
             GustoAuth_access_token cfg srv self sent
               = (Inr a1, put self r2, sent @ [token_request cfg (get self) True])
           \<and> get (put self r2) = r2
           \<and> snd (snd (GustoAuth_access_token cfg srv (put self r2)
                          (sent @ [token_request cfg (get self) True])))
               = sent @ [token_request cfg (get self) True, token_request cfg r2 True]))"
proof (intro conjI impI)
  show "authorize cfg srv self code sent = oauth cfg srv self code False sent"
    by (simp add: authorize_def)
  show "GustoAuth_access_token cfg srv self sent = oauth cfg srv self (get self) True sent"
    by (simp add: GustoAuth_access_token_def)
  show "token_request cfg code False
        = \<lparr>verb = POST, url = ''https://api.gusto-demo.com/oauth/token'',
           headers = [(''Content-Type'', ''application/json'')],
           json_body = Some (JObj
             [(''client_id'', JStr (CLIENT_ID cfg)),
              (''client_secret'', JStr (SECRET cfg)),
              (''redirect_uri'', JStr ''http://localhost:5000/callback''),
              (''grant_type'', JStr ''authorization_code''),
              (''code'', code)])\<rparr>"
    by (simp add: token_request_def token_data_def BASE_URL_def CALLBACK_URL_def)
  show "token_request cfg t True
        = \<lparr>verb = POST, url = ''https://api.gusto-demo.com/oauth/token'',
           headers = [(''Content-Type'', ''application/json'')],
           json_body = Some (JObj
             [(''client_id'', JStr (CLIENT_ID cfg)),
              (''client_secret'', JStr (SECRET cfg)),
              (''redirect_uri'', JStr ''http://localhost:5000/callback''),
              (''grant_type'', JStr ''refresh_token''),
              (''refresh_token'', t)])\<rparr>"
    by (simp add: token_request_def token_data_def BASE_URL_def CALLBACK_URL_def)
  show "snd (snd (authorize cfg srv self code sent)) = sent @ [token_request cfg code False]"
    by (simp add: authorize_def oauth_sent)
  show "snd (snd (GustoAuth_access_token cfg srv self sent))
        = sent @ [token_request cfg (get self) True]"
    by (simp add: GustoAuth_access_token_def oauth_sent)
next
  assume "decoded resp = Some (JObj kvs)
        \<and> map_of kvs ''error'' = None
        \<and> map_of kvs ''refresh_token'' = Some r2
        \<and> map_of kvs ''access_token'' = Some a1"
    and "srv sent (token_request cfg code False) = Some resp"
  then show "authorize cfg srv self code sent
      = (Inr a1, put self r2, sent @ [token_request cfg code False])"
    by (simp add: authorize_def oauth_on_object [of srv sent cfg code False resp kvs])
next
  assume "decoded resp = Some (JObj kvs)
        \<and> map_of kvs ''error'' = None
        \<and> map_of kvs ''refresh_token'' = Some r2
        \<and> map_of kvs ''access_token'' = Some a1"
    and "srv sent (token_request cfg (get self) True) = Some resp"
  then show "GustoAuth_access_token cfg srv self sent
      = (Inr a1, put self r2, sent @ [token_request cfg (get self) True])"
    by (simp add: GustoAuth_access_token_def
          oauth_on_object [of srv sent cfg "get self" True resp kvs])
next
  show "get (put self r2) = r2"
    by (rule get_put)
  show "snd (snd (GustoAuth_access_token cfg srv (put self r2)
                      (sent @ [token_request cfg (get self) True])))
           = sent @ [token_request cfg (get self) True, token_request cfg r2 True]"
    by (simp add: GustoAuth_access_token_def oauth_sent get_put)
qed

text \<open>
  The scenario with the tokens \<open>r1\<close>, \<open>a1\<close> and \<open>r2\<close>, and an authorization with the code
  \<open>c0\<close> against the same mock.
\<close>

theorem wrappers_and_rotation_witness:
  "authorize demo_config
      (scripted
         [Some (Response 200 (Some
            (JObj [(''access_token'', JStr ''a1''), (''refresh_token'', JStr ''r2'')]))),
          Some (Response 200 (Some
            (JObj [(''access_token'', JStr ''a2''), (''refresh_token'', JStr ''r3'')])))])
      (GustoAuth_init (Some (JStr ''r1''))) (JStr ''c0'') []
     = (Inr (JStr ''a1''), GustoAuth_init (Some (JStr ''r2'')),
        [\<lparr>verb = POST, url = ''https://api.gusto-demo.com/oauth/token'',
          headers = [(''Content-Type'', ''application/json'')],
          json_body = Some (JObj
            [(''client_id'', JStr ''client''),
             (''client_secret'', JStr ''secret''),
             (''redirect_uri'', JStr ''http://localhost:5000/callback''),
             (''grant_type'', JStr ''authorization_code''),
             (''code'', JStr ''c0'')])\<rparr>])
   \<and> GustoAuth_access_token demo_config
      (scripted
         [Some (Response 200 (Some
            (JObj [(''access_token'', JStr ''a1''), (''refresh_token'', JStr ''r2'')]))),
          Some (Response 200 (Some
            (JObj [(''access_token'', JStr ''a2''), (''refresh_token'', JStr ''r3'')])))])
      (GustoAuth_init (Some (JStr ''r1''))) []
     = (Inr (JStr ''a1''), GustoAuth_init (Some (JStr ''r2'')),
        [\<lparr>verb = POST, url = ''https://api.gusto-demo.com/oauth/token'',
          headers = [(''Content-Type'', ''application/json'')],
          json_body = Some (JObj
            [(''client_id'', JStr ''client''),
             (''client_secret'', JStr ''secret''),
             (''redirect_uri'', JStr ''http://localhost:5000/callback''),
             (''grant_type'', JStr ''refresh_token''),
             (''refresh_token'', JStr ''r1'')])\<rparr>])
   \<and> get (GustoAuth_init (Some (JStr ''r2''))) = JStr ''r2''
   \<and> snd (snd (GustoAuth_access_token demo_config
      (scripted
         [Some (Response 200 (Some
            (JObj [(''access_token'', JStr ''a1''), (''refresh_token'', JStr ''r2'')]))),
          Some (Response 200 (Some
            (JObj [(''access_token'', JStr ''a2''), (''refresh_token'', JStr ''r3'')])))])
      (GustoAuth_init (Some (JStr ''r2''))) [token_request demo_config (JStr ''r1'') True]))
     = [token_request demo_config (JStr ''r1'') True,
        \<lparr>verb = POST, url = ''https://api.gusto-demo.com/oauth/token'',
          headers = [(''Content-Type'', ''application/json'')],
          json_body = Some (JObj
            [(''client_id'', JStr ''client''),
             (''client_secret'', JStr ''secret''),
             (''redirect_uri'', JStr ''http://localhost:5000/callback''),
             (''grant_type'', JStr ''refresh_token''),
             (''refresh_token'', JStr ''r2'')])\<rparr>]"
proof -
  let ?srv = "scripted
         [Some (Response 200 (Some
            (JObj [(''access_token'', JStr ''a1''), (''refresh_token'', JStr ''r2'')]))),
          Some (Response 200 (Some
            (JObj [(''access_token'', JStr ''a2''), (''refresh_token'', JStr ''r3'')])))]"
  let ?resp = "Response 200 (Some
      (JObj [(''access_token'', JStr ''a1''), (''refresh_token'', JStr ''r2'')]))"
  let ?self = "GustoAuth_init (Some (JStr ''r1''))"
  note w = wrappers_and_rotation [of demo_config ?srv ?self "JStr ''c0''" "[]" "JStr ''r2''"
      ?resp "[(''access_token'', JStr ''a1''), (''refresh_token'', JStr ''r2'')]"
      "JStr ''r2''" "JStr ''a1''"]
  have shape: "decoded ?resp
        = Some (JObj [(''access_token'', JStr ''a1''), (''refresh_token'', JStr ''r2'')])
      \<and> map_of [(''access_token'', JStr ''a1''), (''refresh_token'', JStr ''r2'')] ''error'' = None
      \<and> map_of [(''access_token'', JStr ''a1''), (''refresh_token'', JStr ''r2'')]
            ''refresh_token'' = Some (JStr ''r2'')
      \<and> map_of [(''access_token'', JStr ''a1''), (''refresh_token'', JStr ''r2'')]
            ''access_token'' = Some (JStr ''a1'')"
    by simp
  have first: "?srv [] rq = Some ?resp" for rq
    by (simp add: scripted_def)
  have c: "CLIENT_ID demo_config = ''client''" "SECRET demo_config = ''secret''"
    by (simp_all add: demo_config_def)
  from w have rq_code: "token_request demo_config (JStr ''c0'') False
        = \<lparr>verb = POST, url = ''https://api.gusto-demo.com/oauth/token'',
           headers = [(''Content-Type'', ''application/json'')],
           json_body = Some (JObj
             [(''client_id'', JStr ''client''),
              (''client_secret'', JStr ''secret''),
              (''redirect_uri'', JStr ''http://localhost:5000/callback''),
              (''grant_type'', JStr ''authorization_code''),
              (''code'', JStr ''c0'')])\<rparr>"
    by (simp add: c)
  from w have rq_r2: "token_request demo_config (JStr ''r2'') True
        = \<lparr>verb = POST, url = ''https://api.gusto-demo.com/oauth/token'',
           headers = [(''Content-Type'', ''application/json'')],
           json_body = Some (JObj
             [(''client_id'', JStr ''client''),
              (''client_secret'', JStr ''secret''),
              (''redirect_uri'', JStr ''http://localhost:5000/callback''),
              (''grant_type'', JStr ''refresh_token''),
              (''refresh_token'', JStr ''r2'')])\<rparr>"
    by (simp add: c)
  have rq_r1: "token_request demo_config (JStr ''r1'') True
        = \<lparr>verb = POST, url = ''https://api.gusto-demo.com/oauth/token'',
           headers = [(''Content-Type'', ''application/json'')],
           json_body = Some (JObj
             [(''client_id'', JStr ''client''),
              (''client_secret'', JStr ''secret''),
              (''redirect_uri'', JStr ''http://localhost:5000/callback''),
              (''grant_type'', JStr ''refresh_token''),
              (''refresh_token'', JStr ''r1'')])\<rparr>"
    by (simp add: token_request_def token_data_def BASE_URL_def CALLBACK_URL_def c)
  from w shape first [of "token_request demo_config (JStr ''c0'') False"]
  have a: "authorize demo_config ?srv ?self (JStr ''c0'') []
      = (Inr (JStr ''a1''), put ?self (JStr ''r2''),
         [token_request demo_config (JStr ''c0'') False])"
    by (metis append_Nil)
  from w shape first [of "token_request demo_config (get ?self) True"]
  have r: "GustoAuth_access_token demo_config ?srv ?self []
      = (Inr (JStr ''a1''), put ?self (JStr ''r2''),
         [token_request demo_config (get ?self) True])"
    and n: "snd (snd (GustoAuth_access_token demo_config ?srv (put ?self (JStr ''r2''))
                          ([] @ [token_request demo_config (get ?self) True])))
      = [] @ [token_request demo_config (get ?self) True,
              token_request demo_config (JStr ''r2'') True]"
    by (metis append_Nil)+
  show ?thesis
    using a r n by (simp add: rq_code rq_r1 rq_r2 put_def get_def GustoAuth_init_def)
qed

subsection \<open>Conversion to a string\<close>

text \<open>
  C10. \<^verbatim>\<open>__str__\<close> returns the held refresh token itself. For an object built without
  a refresh token the held value is \<^verbatim>\<open>None\<close> and \<^verbatim>\<open>str(obj)\<close> raises; once a string
  is held, \<^verbatim>\<open>str(obj)\<close> is that string.
\<close>

theorem str_of_GustoAuth:
  "GustoAuth_str self = get self
   \<and> get (GustoAuth_init None) = JNull
   \<and> str_GustoAuth (GustoAuth_init None) = Inl TypeError
   \<and> str_GustoAuth (GustoAuth_init (Some (JStr s))) = Inr s
   \<and> str_GustoAuth (put self (JStr s)) = Inr s"
  by (simp add: GustoAuth_str_def str_GustoAuth_def GustoAuth_init_def get_def put_def)

section \<open>Properties of Gusto\<close>

lemma me_eq:
  "me repr srv self sent =
     ((case srv sent (me_request repr self) of
         None \<Rightarrow> Inl RequestException
       | Some resp \<Rightarrow> response_json resp),
      self, sent @ [me_request repr self])"
  by (simp add: me_def send_def split: option.splits)

text \<open>
  C7, as the code has it. \<open>me\<close> fails with the exception of the HTTP library when no
  response arrives. Once a response has arrived its status code plays no part: \<open>me\<close>
  returns the parsed body when the body is JSON, and fails with the decoding error when
  it is not.
\<close>

theorem me_outcomes:
  "(srv sent (me_request repr self) = None \<longrightarrow>
      fst (me repr srv self sent) = Inl RequestException)
   \<and> (srv sent (me_request repr self) = Some (Response status (Some body)) \<longrightarrow>
      fst (me repr srv self sent) = Inr body)
   \<and> (srv sent (me_request repr self) = Some (Response status None) \<longrightarrow>
      fst (me repr srv self sent) = Inl JSONDecodeError)"
  by (simp add: me_eq response_json_def)

theorem me_outcomes_witness:
  "fst (me stub_repr (scripted [None]) (Gusto_init (JStr ''tok'')) []) = Inl RequestException
   \<and> fst (me stub_repr (always (Response 503 (Some (JStr ''busy'')))) (Gusto_init (JStr ''tok'')) [])
       = Inr (JStr ''busy'')
   \<and> fst (me stub_repr (always (Response 200 None)) (Gusto_init (JStr ''tok'')) [])
       = Inl JSONDecodeError"
  using me_outcomes [of "scripted [None]" "[]" stub_repr "Gusto_init (JStr ''tok'')"]
    me_outcomes [of "always (Response 503 (Some (JStr ''busy'')))" "[]" stub_repr
       "Gusto_init (JStr ''tok'')" 503 "JStr ''busy''"]
    me_outcomes [of "always (Response 200 None)" "[]" stub_repr "Gusto_init (JStr ''tok'')" 200]
  by (simp add: scripted_def always_def)

text \<open>
  C7 as stated fails on a response with status 404 and a JSON body: \<open>me\<close> returns the
  body.
\<close>

theorem me_returns_on_error_status:
  "me stub_repr (always (Response 404 (Some (JObj [(''message'', JStr ''Not Found'')]))))
      (Gusto_init (JStr ''tok'')) []
   = (Inr (JObj [(''message'', JStr ''Not Found'')]), Gusto_init (JStr ''tok''),
      [me_request stub_repr (Gusto_init (JStr ''tok''))])
   \<and> status_code (Response 404 (Some (JObj [(''message'', JStr ''Not Found'')]))) = 404"
  by (simp add: me_eq always_def response_json_def)

subsection \<open>The company identifier\<close>

lemma company_id_eq:
  "company_id repr srv self sent =
     (and_then (fst (me repr srv self sent)) subscripts, self, sent @ [me_request repr self])"
  by (simp add: company_id_def me_eq)

lemma getitem_Inr: "(getitem v k = Inr x) = (member v k = Some x)"
  by (cases v) (simp_all split: option.splits)

lemma getitem_Inl:
  "getitem v k = Inl e \<Longrightarrow> member v k = None \<and> (e = TypeError \<or> e = KeyError (JStr k))"
  by (cases v) (auto split: option.splits)

lemma getitem0_Inr:
  "getitem0 v = Inr x \<Longrightarrow> element0 v = Some x \<or> (\<exists>c cs. v = JStr (c # cs) \<and> x = JStr [c])"
  by (cases v rule: getitem0.cases) simp_all

lemma getitem0_Inl:
  "getitem0 v = Inl e \<Longrightarrow>
     element0 v = None \<and> (e = TypeError \<or> e = IndexError \<or> e = KeyError (JInt 0))"
  by (cases v rule: getitem0.cases) simp_all

lemma element0_getitem0: "element0 v = Some x \<Longrightarrow> getitem0 v = Inr x"
  by (cases v rule: getitem0.cases) simp_all

text \<open>The subscripts succeed exactly on the profiles that have the path.\<close>

lemma subscripts_present:
  assumes "profile_path profile = Some v"
  shows "subscripts profile = Inr v"
  using assms
  by (auto simp: profile_path_def subscripts_def and_then_def getitem_Inr [symmetric]
        dest!: element0_getitem0 split: Option.bind_splits)

lemma subscripts_absent:
  assumes "profile_path profile = None"
  shows "\<exists>e. subscripts profile = Inl e
            \<and> (e = IndexError \<or> e = TypeError \<or> (\<exists>k. e = KeyError k))"
proof (cases "subscripts profile")
  case (Inl e)
  then have "e = IndexError \<or> e = TypeError \<or> (\<exists>k. e = KeyError k)"
    by (auto simp: subscripts_def and_then_def split: sum.splits
          dest!: getitem_Inl getitem0_Inl)
  with Inl show ?thesis by simp
next
  case (Inr v)
  then obtain roles admin companies company where
    s: "getitem profile ''roles'' = Inr roles" "getitem roles ''payroll_admin'' = Inr admin"
      "getitem admin ''companies'' = Inr companies" "getitem0 companies = Inr company"
      "getitem company ''id'' = Inr v"
    by (auto simp: subscripts_def and_then_def split: sum.splits)
  from s(4) have "element0 companies = Some company"
  proof (rule getitem0_Inr [THEN disjE])
    assume "\<exists>c cs. companies = JStr (c # cs) \<and> company = JStr [c]"
    with s(5) show ?thesis by auto
  qed
  with s have "profile_path profile = Some v"
    by (simp add: profile_path_def getitem_Inr)
  with assms show ?thesis by simp
qed

text \<open>
  C6, as the code has it. When the \<^verbatim>\<open>/v1/me\<close> response is a profile that has the path
  \<^verbatim>\<open>roles.payroll_admin.companies[0].id\<close>, \<open>company_id\<close> returns the value found there.
  When the profile lacks the path, \<open>company_id\<close> fails with the exception that Python's
  subscripting raises: \<^verbatim>\<open>KeyError\<close>, \<^verbatim>\<open>IndexError\<close> or \<^verbatim>\<open>TypeError\<close>.
\<close>

theorem company_id_of_profile:
  assumes "srv sent (me_request repr self) = Some resp"
    and "decoded resp = Some profile"
  shows "(\<forall>v. profile_path profile = Some v \<longrightarrow> fst (company_id repr srv self sent) = Inr v)
       \<and> (profile_path profile = None \<longrightarrow>
            (\<exists>e. fst (company_id repr srv self sent) = Inl e
                \<and> (e = IndexError \<or> e = TypeError \<or> (\<exists>k. e = KeyError k))))"
proof -
  have "fst (company_id repr srv self sent) = subscripts profile"
    using assms by (simp add: company_id_eq me_eq response_json_def and_then_def)
  then show ?thesis
    using subscripts_present [of profile] subscripts_absent [of profile] by simp
qed

text \<open>A profile with one company, and a payroll admin of no company.\<close>

theorem company_id_of_profile_witness:
  "profile_path demo_profile = Some (JInt 7057)
   \<and> fst (company_id stub_repr (always (Response 200 (Some demo_profile)))
            (Gusto_init (JStr ''tok'')) []) = Inr (JInt 7057)
   \<and> profile_path
        (JObj [(''roles'', JObj [(''payroll_admin'', JObj [(''companies'', JArr [])])])]) = None
   \<and> fst (company_id stub_repr
        (always (Response 200 (Some
           (JObj [(''roles'', JObj [(''payroll_admin'', JObj [(''companies'', JArr [])])])]))))
        (Gusto_init (JStr ''tok'')) []) = Inl IndexError"
proof -
  have p: "profile_path demo_profile = Some (JInt 7057)"
    by (simp add: profile_path_def demo_profile_def)
  have q: "profile_path
        (JObj [(''roles'', JObj [(''payroll_admin'', JObj [(''companies'', JArr [])])])]) = None"
    by (simp add: profile_path_def)
  have r: "fst (company_id stub_repr
        (always (Response 200 (Some
           (JObj [(''roles'', JObj [(''payroll_admin'', JObj [(''companies'', JArr [])])])]))))
        (Gusto_init (JStr ''tok'')) []) = Inl IndexError"
    by (simp add: company_id_eq me_eq always_def response_json_def and_then_def subscripts_def)
  show ?thesis
    using p q r
      company_id_of_profile [of "always (Response 200 (Some demo_profile))" "[]" stub_repr
        "Gusto_init (JStr ''tok'')" "Response 200 (Some demo_profile)" demo_profile]
    by (simp add: always_def)
qed

text \<open>
  C6 as stated fails on a profile without the payroll-admin role: the failure is the
  \<^verbatim>\<open>KeyError\<close> of the dict lookup, a generic error, and the module defines no error of
  its own for a malformed profile.
\<close>

theorem company_id_without_role:
  "company_id stub_repr (always (Response 200 (Some (JObj [(''roles'', JObj [])]))))
      (Gusto_init (JStr ''tok'')) []
   = (Inl (KeyError (JStr ''payroll_admin'')), Gusto_init (JStr ''tok''),
      [me_request stub_repr (Gusto_init (JStr ''tok''))])"
  by (simp add: company_id_eq me_eq always_def response_json_def and_then_def subscripts_def)

subsection \<open>The resource calls\<close>

text \<open>What a resource call does once \<open>company_id\<close> has run.\<close>

lemma get_contractors_eq:
  "get_contractors repr srv self sent =
     (case fst (company_id repr srv self sent) of
        Inl e \<Rightarrow> (Inl e, self, sent @ [me_request repr self])
      | Inr cid \<Rightarrow>
          ((case srv (sent @ [me_request repr self])
                  (resource_request repr self cid ''/contractors'') of
              None \<Rightarrow> Inl RequestException
            | Some resp \<Rightarrow> response_json resp),
           self,
           sent @ [me_request repr self, resource_request repr self cid ''/contractors'']))"
  by (simp add: get_contractors_def company_id_eq send_def split: sum.splits option.splits)

lemma get_employees_eq:
  "get_employees repr srv self sent =
     (case fst (company_id repr srv self sent) of
        Inl e \<Rightarrow> (Inl e, self, sent @ [me_request repr self])
      | Inr cid \<Rightarrow>
          ((case srv (sent @ [me_request repr self])
                  (resource_request repr self cid ''/employees'') of
              None \<Rightarrow> Inl RequestException
            | Some resp \<Rightarrow> response_json resp),
           self,
           sent @ [me_request repr self, resource_request repr self cid ''/employees'']))"
  by (simp add: get_employees_def company_id_eq send_def split: sum.splits option.splits)

text \<open>
  C8, as the code has it. Every invocation of \<open>get_contractors\<close> or \<open>get_employees\<close>
  first sends one GET to \<^verbatim>\<open>/v1/me\<close>. When \<open>company_id\<close> fails on it, the invocation
  fails in the same way and sends nothing else. When \<open>company_id\<close> returns an identifier,
  the invocation sends exactly one more request, a GET to the contractors or employees
  URL of that company, and when the response to it has a JSON body the invocation
  returns that body as it is.
\<close>

theorem resource_calls:
  "(\<forall>e. fst (company_id repr srv self sent) = Inl e \<longrightarrow>
       get_contractors repr srv self sent = (Inl e, self, sent @ [me_request repr self])
     \<and> get_employees repr srv self sent = (Inl e, self, sent @ [me_request repr self]))
   \<and> (\<forall>cid. fst (company_id repr srv self sent) = Inr cid \<longrightarrow>
       snd (snd (get_contractors repr srv self sent))
         = sent @ [me_request repr self,
                   \<lparr>verb = GET,
                    url = BASE_URL @ ''/v1/companies/'' @ format repr cid @ ''/contractors'',
                    headers = bearer_headers repr self, json_body = None\<rparr>]
     \<and> snd (snd (get_employees repr srv self sent))
         = sent @ [me_request repr self,
                   \<lparr>verb = GET,
                    url = BASE_URL @ ''/v1/companies/'' @ format repr cid @ ''/employees'',
                    headers = bearer_headers repr self, json_body = None\<rparr>]
     \<and> (\<forall>status body.
           srv (sent @ [me_request repr self])
               \<lparr>verb = GET,
                url = BASE_URL @ ''/v1/companies/'' @ format repr cid @ ''/contractors'',
                headers = bearer_headers repr self, json_body = None\<rparr>
             = Some (Response status (Some body)) \<longrightarrow>
           fst (get_contractors repr srv self sent) = Inr body)
     \<and> (\<forall>status body.
           srv (sent @ [me_request repr self])
               \<lparr>verb = GET,
                url = BASE_URL @ ''/v1/companies/'' @ format repr cid @ ''/employees'',
                headers = bearer_headers repr self, json_body = None\<rparr>
             = Some (Response status (Some body)) \<longrightarrow>
           fst (get_employees repr srv self sent) = Inr body))
   \<and> verb (me_request repr self) = GET
   \<and> url (me_request repr self) = BASE_URL @ ''/v1/me''"
  by (simp add: get_contractors_eq get_employees_eq resource_request_def
        me_request_def response_json_def)

text \<open>One invocation against a mock that serves the profile and then a list.\<close>

theorem resource_calls_witness:
  "get_contractors stub_repr
      (scripted [Some (Response 200 (Some demo_profile)),
                 Some (Response 200 (Some (JArr [JObj [(''first_name'', JStr ''Ada'')]])))])
      (Gusto_init (JStr ''tok'')) []
    = (Inr (JArr [JObj [(''first_name'', JStr ''Ada'')]]), Gusto_init (JStr ''tok''),
       [\<lparr>verb = GET, url = ''https://api.gusto-demo.com/v1/me'',
         headers = [(''Accept'', ''application/json''), (''Authorization'', ''Bearer tok'')],
         json_body = None\<rparr>,
        \<lparr>verb = GET, url = ''https://api.gusto-demo.com/v1/companies/7057/contractors'',
         headers = [(''Accept'', ''application/json''), (''Authorization'', ''Bearer tok'')],
         json_body = None\<rparr>])"
proof -
  let ?srv = "scripted [Some (Response 200 (Some demo_profile)),
                 Some (Response 200 (Some (JArr [JObj [(''first_name'', JStr ''Ada'')]])))]"
  let ?g = "Gusto_init (JStr ''tok'')"
  have d: "str_of_int 7057 = ''7057''"
    by (simp add: str_of_int_def digits.simps)
  have c: "fst (company_id stub_repr ?srv ?g []) = Inr (JInt 7057)"
    by (simp add: company_id_eq me_eq scripted_def response_json_def and_then_def subscripts_def
          demo_profile_def)
  have g: "fst (snd (get_contractors stub_repr ?srv ?g [])) = ?g"
    by (simp add: get_contractors_eq split: sum.splits)
  from resource_calls [of stub_repr ?srv ?g "[]"] c
  have "snd (snd (get_contractors stub_repr ?srv ?g []))
         = [me_request stub_repr ?g,
            \<lparr>verb = GET,
             url = BASE_URL @ ''/v1/companies/'' @ format stub_repr (JInt 7057) @ ''/contractors'',
             headers = bearer_headers stub_repr ?g, json_body = None\<rparr>]"
    and "fst (get_contractors stub_repr ?srv ?g []) = Inr (JArr [JObj [(''first_name'', JStr ''Ada'')]])"
    by (simp_all add: scripted_def)
  with g show ?thesis
    by (simp add: prod_eq_iff me_request_def bearer_headers_def BASE_URL_def Gusto_init_def d)
qed

text \<open>
  C8 as stated fails on an invocation whose \<^verbatim>\<open>/v1/me\<close> profile has no payroll-admin
  role: the one request sent is the GET to \<^verbatim>\<open>/v1/me\<close>, no request goes to the
  contractors endpoint, and nothing is returned.
\<close>

theorem resource_call_not_made:
  "get_contractors stub_repr (always (Response 200 (Some (JObj [(''roles'', JObj [])]))))
      (Gusto_init (JStr ''tok'')) []
   = (Inl (KeyError (JStr ''payroll_admin'')), Gusto_init (JStr ''tok''),
      [me_request stub_repr (Gusto_init (JStr ''tok''))])
   \<and> url (me_request stub_repr (Gusto_init (JStr ''tok''))) = ''https://api.gusto-demo.com/v1/me''"
  by (simp add: get_contractors_eq company_id_eq me_eq always_def
        response_json_def and_then_def subscripts_def me_request_def BASE_URL_def)

subsection \<open>The stored access token\<close>

text \<open>
  C9. Each of \<open>me\<close>, \<open>company_id\<close>, \<open>get_contractors\<close> and \<open>get_employees\<close>, whether it
  returns or raises, leaves the object as it was built, so the \<open>access_token\<close> attribute
  is still the value given to the constructor, and every request the call sends has the
  header \<^verbatim>\<open>Authorization: Bearer\<close> followed by that value.
\<close>

theorem bearer_token_frame:
  assumes "op \<in> {me, company_id, get_contractors, get_employees}"
  shows "\<exists>r new. op repr srv (Gusto_init tok) sent = (r, Gusto_init tok, sent @ new)
           \<and> access_token (Gusto_init tok) = tok
           \<and> (\<forall>rq\<in>set new. map_of (headers rq) ''Authorization''
                  = Some (''Bearer '' @ format repr tok))"
proof -
  have h: "map_of (bearer_headers repr (Gusto_init tok)) ''Authorization''
             = Some (''Bearer '' @ format repr tok)"
    by (simp add: bearer_headers_def Gusto_init_def)
  have con: "\<exists>r new. get_contractors repr srv (Gusto_init tok) sent
                 = (r, Gusto_init tok, sent @ new)
           \<and> (\<forall>rq\<in>set new. map_of (headers rq) ''Authorization''
                  = Some (''Bearer '' @ format repr tok))"
    by (cases "fst (company_id repr srv (Gusto_init tok) sent)")
       (simp_all add: get_contractors_eq h me_request_def resource_request_def)
  have emp: "\<exists>r new. get_employees repr srv (Gusto_init tok) sent
                 = (r, Gusto_init tok, sent @ new)
           \<and> (\<forall>rq\<in>set new. map_of (headers rq) ''Authorization''
                  = Some (''Bearer '' @ format repr tok))"
    by (cases "fst (company_id repr srv (Gusto_init tok) sent)")
       (simp_all add: get_employees_eq h me_request_def resource_request_def)
  have t: "access_token (Gusto_init tok) = tok"
    by (simp add: Gusto_init_def)
  from assms consider "op = me" | "op = company_id" | "op = get_contractors"
    | "op = get_employees"
    by auto
  then show ?thesis
  proof cases
    case 1
    then show ?thesis by (simp add: me_eq h t me_request_def)
  next
    case 2
    then show ?thesis by (simp add: company_id_eq h t me_request_def)
  next
    case 3
    then show ?thesis using con by (simp add: t)
  next
    case 4
    then show ?thesis using emp by (simp add: t)
  qed
qed

theorem bearer_token_frame_witness:
  "get_employees \<in> {me, company_id, get_contractors, get_employees}
   \<and> fst (snd (get_employees stub_repr (always (Response 200 (Some demo_profile)))
                 (Gusto_init (JStr ''tok'')) [])) = Gusto_init (JStr ''tok'')
   \<and> access_token (Gusto_init (JStr ''tok'')) = JStr ''tok''
   \<and> map headers (snd (snd (get_employees stub_repr (always (Response 200 (Some demo_profile)))
                 (Gusto_init (JStr ''tok'')) [])))
       = [[(''Accept'', ''application/json''), (''Authorization'', ''Bearer tok'')],
          [(''Accept'', ''application/json''), (''Authorization'', ''Bearer tok'')]]"
proof -
  have m: "get_employees \<in> {me, company_id, get_contractors, get_employees}"
    by simp
  have e: "map headers (snd (snd (get_employees stub_repr (always (Response 200 (Some demo_profile)))
                 (Gusto_init (JStr ''tok'')) [])))
       = [[(''Accept'', ''application/json''), (''Authorization'', ''Bearer tok'')],
          [(''Accept'', ''application/json''), (''Authorization'', ''Bearer tok'')]]"
    by (simp add: get_employees_eq company_id_eq me_eq always_def
          response_json_def and_then_def subscripts_def demo_profile_def me_request_def
          resource_request_def bearer_headers_def Gusto_init_def)
  from bearer_token_frame [OF m, of stub_repr "always (Response 200 (Some demo_profile))"
      "JStr ''tok''" "[]"]
  have "fst (snd (get_employees stub_repr (always (Response 200 (Some demo_profile)))
                 (Gusto_init (JStr ''tok'')) [])) = Gusto_init (JStr ''tok'')"
    and "access_token (Gusto_init (JStr ''tok'')) = JStr ''tok''"
    by auto
  with m e show ?thesis by simp
qed

end
